theory Spec2Isabelle
  imports Complex_Main
begin

section \<open>Authentication, session and audit core of the talent hub backend\<close>

text \<open>
  The development embeds the authentication endpoints (\<^verbatim>\<open>app/api/auth.py\<close>), the
  refresh-token model (\<^verbatim>\<open>app/models/refresh_token.py\<close>), the in-memory rate limiter
  (\<^verbatim>\<open>app/core/rate_limit.py\<close>), the audit service and the audit API
  (\<^verbatim>\<open>app/services/audit_service.py\<close>, \<^verbatim>\<open>app/api/audit.py\<close>) as HOL functions, and
  proves the properties of the specification about them.

  Conventions. A timezone-aware \<^verbatim>\<open>datetime\<close> is the integer number of microseconds
  since the epoch (the resolution of Python's datetime), so comparing two of them
  compares instants. An exception is the \<open>Inl\<close> branch of a sum. A table is the list of
  its rows. The clock readings of one request are taken at one instant \<open>now\<close>.
\<close>

subsection \<open>Values, errors and Python helpers\<close>

type_synonym datetime = int

datatype error =
    HTTPException int string "(string \<times> string) list"
  | AttributeError string
  | UnknownHashError string

datatype json = JStr string | JBool bool

type_synonym dict = "(string \<times> json) list"

text \<open>\<^verbatim>\<open>d[k] = v\<close> on a dict: an existing key keeps its place, a new key goes last.\<close>

primrec dict_set :: "string \<Rightarrow> json \<Rightarrow> dict \<Rightarrow> dict" where
  "dict_set k v [] = [(k, v)]"
| "dict_set k v (p # ps) = (if fst p = k then (k, v) # ps else p # dict_set k v ps)"

text \<open>\<^verbatim>\<open>d.update(other)\<close>.\<close>

definition dict_update :: "dict \<Rightarrow> dict \<Rightarrow> dict" where
  "dict_update d other = foldl (\<lambda>acc p. dict_set (fst p) (snd p) acc) d other"

definition dict_get :: "dict \<Rightarrow> string \<Rightarrow> json option" where
  "dict_get d k = map_of d k"

text \<open>\<^verbatim>\<open>str(n)\<close> for an integer.\<close>

fun str_nat :: "nat \<Rightarrow> string" where
  "str_nat n = (if n < 10 then [char_of (48 + n)]
                else str_nat (n div 10) @ [char_of (48 + n mod 10)])"

declare str_nat.simps [simp del]

definition str_int :: "int \<Rightarrow> string" where
  "str_int i = (if i < 0 then CHR ''-'' # str_nat (nat (- i)) else str_nat (nat i))"

text \<open>\<^verbatim>\<open>int(x)\<close> for a float: truncation towards zero.\<close>

definition py_int :: "real \<Rightarrow> int" where
  "py_int x = (if 0 \<le> x then \<lfloor>x\<rfloor> else \<lceil>x\<rceil>)"

text \<open>\<^verbatim>\<open>s.strip()\<close>: whitespace removed at both ends.\<close>

definition is_space :: "char \<Rightarrow> bool" where
  "is_space c = (c \<in> set [CHR '' '', CHR 0x09, CHR 0x0A, CHR 0x0B, CHR 0x0C, CHR 0x0D,
                          CHR 0x1C, CHR 0x1D, CHR 0x1E, CHR 0x1F, CHR 0x85, CHR 0xA0])"

definition strip :: "string \<Rightarrow> string" where
  "strip s = rev (dropWhile is_space (rev (dropWhile is_space s)))"

text \<open>\<^verbatim>\<open>s.startswith(p)\<close>.\<close>

definition startswith :: "string \<Rightarrow> string \<Rightarrow> bool" where
  "startswith s p = (take (length p) s = p)"

text \<open>The element a query's \<^verbatim>\<open>.first()\<close> returns is changed in place.\<close>

fun update_first :: "('a \<Rightarrow> bool) \<Rightarrow> ('a \<Rightarrow> 'a) \<Rightarrow> 'a list \<Rightarrow> 'a list" where
  "update_first P f [] = []"
| "update_first P f (x # xs) = (if P x then f x # xs else x # update_first P f xs)"

subsection \<open>Data model\<close>

datatype UserRole = ADMIN | MANAGER | EMPLOYEE

record user =
  u_id :: int
  email :: string
  hashed_password :: string
  full_name :: string
  role :: UserRole
  is_active :: bool
  is_verified :: bool
  last_login_at :: "datetime option"

record refresh_token =
  rt_user_id :: int
  rt_token :: string
  rt_expires_at :: datetime
  is_revoked :: bool

record email_verification_token =
  evt_user_id :: int
  evt_token :: string
  evt_expires_at :: datetime
  consumed :: bool

record audit_log =
  al_id :: int
  timestamp :: datetime
  al_user_id :: "int option"
  action :: string
  target_type :: "string option"
  target_id :: "int option"
  details :: dict

record database =
  users :: "user list"
  refresh_tokens :: "refresh_token list"
  email_verification_tokens :: "email_verification_token list"
  audit_logs :: "audit_log list"

text \<open>
  A SQLAlchemy session: \<open>cur\<close> is the database as the session sees it (its pending
  changes included), \<open>committed\<close> the snapshots that \<^verbatim>\<open>db.commit()\<close> has made durable
  and visible to other sessions during this request, oldest first.
\<close>

record session =
  cur :: database
  committed :: "database list"

definition commit :: "session \<Rightarrow> session" where
  "commit db = db\<lparr>committed := committed db @ [cur db]\<rparr>"

record request =
  headers :: "string \<Rightarrow> string option"
  client :: "string option"
  url_path :: string

subsection \<open>\<^verbatim>\<open>app/models/refresh_token.py\<close>\<close>

definition is_valid :: "refresh_token \<Rightarrow> datetime \<Rightarrow> bool" where
  "is_valid self now =
     (if is_revoked self then False
      else if rt_expires_at self < now then False
      else True)"

definition revoke :: "refresh_token \<Rightarrow> refresh_token" where
  "revoke self = self\<lparr>is_revoked := True\<rparr>"

subsection \<open>\<^verbatim>\<open>app/core/security.py\<close>\<close>

text \<open>
  \<^verbatim>\<open>pwd_context = CryptContext(schemes=["bcrypt"], deprecated="auto")\<close> belongs to the
  passlib library, outside the repository. Its \<^verbatim>\<open>verify\<close> is a parameter of the model:
  a function that returns a boolean or raises.
\<close>

type_synonym crypt_context = "string \<Rightarrow> string \<Rightarrow> error + bool"

definition verify_password :: "crypt_context \<Rightarrow> string \<Rightarrow> string \<Rightarrow> error + bool" where
  "verify_password pwd_context_verify plain_password hashed_password' =
     pwd_context_verify plain_password hashed_password'"

text \<open>
  What passlib's \<^verbatim>\<open>CryptContext.verify\<close> does with a context whose only scheme is bcrypt:
  the hash string is first identified by its prefix; a string that no scheme of the
  context identifies raises \<^verbatim>\<open>UnknownHashError\<close>; an identified one is handed to the
  scheme's own check \<open>bcrypt_verify\<close>, which is left open.
\<close>

definition bcrypt_identify :: "string \<Rightarrow> bool" where
  "bcrypt_identify hash =
     list_ex (startswith hash) [''$2$'', ''$2a$'', ''$2x$'', ''$2y$'', ''$2b$'']"

definition CryptContext_verify :: "crypt_context \<Rightarrow> crypt_context" where
  "CryptContext_verify bcrypt_verify secret hash =
     (if bcrypt_identify hash then bcrypt_verify secret hash
      else Inl (UnknownHashError ''hash could not be identified''))"

text \<open>
  The signing of a token (\<^verbatim>\<open>jwt.encode\<close>) is outside the repository; an access token
  is identified with the claims it carries.
\<close>

record claims =
  sub :: string
  role_claim :: UserRole
  exp_claim :: datetime
  type_claim :: string

definition minutes :: "int \<Rightarrow> int" where
  "minutes m = m * 60 * 1000000"

definition days :: "int \<Rightarrow> int" where
  "days d = d * 24 * 60 * 60 * 1000000"

definition hours :: "int \<Rightarrow> int" where
  "hours h = h * 60 * 60 * 1000000"

text \<open>The settings read from the environment and the sources of time and randomness.\<close>

record env =
  now :: datetime
  pwd_context :: crypt_context
  uuid4 :: string
  ACCESS_TOKEN_EXPIRE_MINUTES :: int
  REFRESH_TOKEN_EXPIRE_DAYS :: int

definition create_access_token :: "env \<Rightarrow> string \<Rightarrow> UserRole \<Rightarrow> int option \<Rightarrow> claims" where
  "create_access_token e sub' role' expires_delta =
     (let expire = (case expires_delta of
                      None \<Rightarrow> now e + minutes (ACCESS_TOKEN_EXPIRE_MINUTES e)
                    | Some d \<Rightarrow> if d \<noteq> 0 then now e + d
                               else now e + minutes (ACCESS_TOKEN_EXPIRE_MINUTES e))
      in \<lparr>sub = sub', role_claim = role', exp_claim = expire, type_claim = ''access''\<rparr>)"

definition generate_refresh_token_string :: "env \<Rightarrow> string" where
  "generate_refresh_token_string e = uuid4 e"

subsection \<open>\<^verbatim>\<open>app/services/audit_service.py\<close>\<close>

definition LOGIN_SUCCESS :: string where "LOGIN_SUCCESS = ''auth.login.success''"
definition LOGIN_FAILURE :: string where "LOGIN_FAILURE = ''auth.login.failure''"
definition LOGOUT :: string where "LOGOUT = ''auth.logout''"
definition TOKEN_REFRESH :: string where "TOKEN_REFRESH = ''auth.token.refresh''"

text \<open>The primary key of a new audit row: the next value of the table's sequence.\<close>

definition next_audit_id :: "audit_log list \<Rightarrow> int" where
  "next_audit_id logs = fold max (map al_id logs) 0 + 1"

definition log_event ::
  "env \<Rightarrow> session \<Rightarrow> string \<Rightarrow> int option \<Rightarrow> string option \<Rightarrow> int option \<Rightarrow> dict option
     \<Rightarrow> audit_log \<times> session" where
  "log_event e db action' actor_id target_type' target_id' details' =
     (let audit_log = \<lparr>al_id = next_audit_id (audit_logs (cur db)),
                       timestamp = now e,
                       al_user_id = actor_id,
                       action = action',
                       target_type = target_type',
                       target_id = target_id',
                       details = (case details' of None \<Rightarrow> [] | Some d \<Rightarrow> d)\<rparr>;
          db1 = db\<lparr>cur := (cur db)\<lparr>audit_logs := audit_logs (cur db) @ [audit_log]\<rparr>\<rparr>
      in (audit_log, commit db1))"

definition get_client_ip :: "request \<Rightarrow> string" where
  "get_client_ip req =
     (case (case headers req ''X-Forwarded-For'' of
              Some forwarded \<Rightarrow> if forwarded \<noteq> [] then Some forwarded else None
            | None \<Rightarrow> None) of
        Some forwarded \<Rightarrow> strip (takeWhile (\<lambda>c. c \<noteq> CHR '','') forwarded)
      | None \<Rightarrow>
          (case (case headers req ''X-Real-IP'' of
                   Some real_ip \<Rightarrow> if real_ip \<noteq> [] then Some real_ip else None
                 | None \<Rightarrow> None) of
             Some real_ip \<Rightarrow> real_ip
           | None \<Rightarrow> (case client req of Some host \<Rightarrow> host | None \<Rightarrow> ''Unknown'')))"

definition log_auth_event ::
  "env \<Rightarrow> session \<Rightarrow> string \<Rightarrow> int option \<Rightarrow> string \<Rightarrow> request \<Rightarrow> bool \<Rightarrow> dict option
     \<Rightarrow> audit_log \<times> session" where
  "log_auth_event e db action' user_id email' req success details' =
     (let event_details =
            [(''email'', JStr email'),
             (''ip'', JStr (get_client_ip req)),
             (''user_agent'', JStr (case headers req ''User-Agent'' of
                                      Some ua \<Rightarrow> ua | None \<Rightarrow> ''Unknown'')),
             (''success'', JBool success)];
          event_details = (case details' of
                             None \<Rightarrow> event_details
                           | Some d \<Rightarrow> if d \<noteq> [] then dict_update event_details d
                                       else event_details)
      in log_event e db action' user_id None None (Some event_details))"

definition log_login_success :: "env \<Rightarrow> session \<Rightarrow> int \<Rightarrow> string \<Rightarrow> request \<Rightarrow> audit_log \<times> session" where
  "log_login_success e db user_id email' req =
     log_auth_event e db LOGIN_SUCCESS (Some user_id) email' req True None"

definition log_login_failure :: "env \<Rightarrow> session \<Rightarrow> string \<Rightarrow> request \<Rightarrow> string \<Rightarrow> audit_log \<times> session" where
  "log_login_failure e db email' req reason =
     log_auth_event e db LOGIN_FAILURE None email' req False (Some [(''reason'', JStr reason)])"

definition log_token_refresh :: "env \<Rightarrow> session \<Rightarrow> int \<Rightarrow> string \<Rightarrow> request \<Rightarrow> audit_log \<times> session" where
  "log_token_refresh e db user_id email' req =
     log_auth_event e db TOKEN_REFRESH (Some user_id) email' req True None"

subsection \<open>\<^verbatim>\<open>app/core/rate_limit.py\<close>\<close>

text \<open>
  The in-memory limiter (\<^verbatim>\<open>_use_memory\<close> true; the other branch hands the request to
  the fastapi-limiter library). \<^verbatim>\<open>_memory_store\<close> maps a key to (count, reset
  timestamp); \<^verbatim>\<open>time.time()\<close> is a number of seconds, taken here as a real number.
  The body runs under \<^verbatim>\<open>_lock\<close>, so one call is one step on the store.
\<close>

type_synonym memory_store = "string \<Rightarrow> (int \<times> real) option"

definition rate_key :: "request \<Rightarrow> string" where
  "rate_key req =
     (let ip = (case client req of Some host \<Rightarrow> host | None \<Rightarrow> ''unknown'');
          route = url_path req
      in ip @ '':'' @ route)"

definition make_rate_limiter ::
  "int \<Rightarrow> int \<Rightarrow> real \<Rightarrow> request \<Rightarrow> memory_store \<Rightarrow> (error + unit) \<times> memory_store" where
  "make_rate_limiter times' seconds now' req store =
     (let key = rate_key req;
          (count, reset_ts) = (case store key of
                                 Some entry \<Rightarrow> entry
                               | None \<Rightarrow> (0, now' + real_of_int seconds));
          (count, reset_ts) = (if now' > reset_ts then (0, now' + real_of_int seconds)
                               else (count, reset_ts));
          count = count + 1;
          store' = store(key \<mapsto> (count, reset_ts))
      in if count > times'
         then (let remaining = py_int (reset_ts - now')
               in (Inl (HTTPException 429
                         (''Rate limit exceeded. Try again in '' @ str_int remaining @ ''s'') []),
                   store'))
         else (Inr (), store'))"


text \<open>
  Mixed traffic on the shared \<^verbatim>\<open>_memory_store\<close>: each hit is one call of a limiter
  dependency, with the threshold and window of its route, the clock reading and the
  request. \<open>serve\<close> runs the hits in order; \<open>answers_for\<close> picks the answers given to
  the hits of one key.
\<close>

type_synonym hit = "int \<times> int \<times> real \<times> request"


fun serve :: "hit list \<Rightarrow> memory_store \<Rightarrow> (error + unit) list \<times> memory_store" where
  "serve [] store = ([], store)"
| "serve ((times', seconds, now', req) # hits) store =
     (let (r, store1) = make_rate_limiter times' seconds now' req store;
          (rs, store2) = serve hits store1
      in (r # rs, store2))"


subsection \<open>\<^verbatim>\<open>app/api/auth.py\<close>\<close>

record cookie =
  cookie_key :: string
  cookie_value :: string
  httponly :: bool
  secure :: bool
  samesite :: string
  max_age :: int

record token_response =
  access_token :: claims
  token_type :: string
  set_cookie :: "cookie option"

definition REFRESH_TOKEN_COOKIE_NAME :: string where
  "REFRESH_TOKEN_COOKIE_NAME = ''refresh_token''"

definition refresh_cookie :: "env \<Rightarrow> string \<Rightarrow> cookie" where
  "refresh_cookie e v =
     \<lparr>cookie_key = REFRESH_TOKEN_COOKIE_NAME, cookie_value = v, httponly = True,
      secure = True, samesite = ''lax'',
      max_age = REFRESH_TOKEN_EXPIRE_DAYS e * 24 * 60 * 60\<rparr>"

definition add_refresh_token :: "refresh_token \<Rightarrow> session \<Rightarrow> session" where
  "add_refresh_token r db = db\<lparr>cur := (cur db)\<lparr>refresh_tokens := refresh_tokens (cur db) @ [r]\<rparr>\<rparr>"

text \<open>
  \<^verbatim>\<open>POST /auth/login\<close>, after the rate-limit dependency has let the request through.
\<close>

definition login ::
  "env \<Rightarrow> request \<Rightarrow> string \<Rightarrow> string \<Rightarrow> session \<Rightarrow> (error + token_response) \<times> session" where
  "login e req username password db =
     (case find (\<lambda>u. email u = username) (users (cur db)) of
        None \<Rightarrow>
          (Inl (HTTPException 401 ''Incorrect email or password''
                  [(''WWW-Authenticate'', ''Bearer'')]),
           snd (log_login_failure e db username req ''Invalid credentials''))
      | Some user \<Rightarrow>
          (case verify_password (pwd_context e) password (hashed_password user) of
             Inl exn \<Rightarrow> (Inl exn, db)
           | Inr matches \<Rightarrow>
               if \<not> matches then
                 (Inl (HTTPException 401 ''Incorrect email or password''
                         [(''WWW-Authenticate'', ''Bearer'')]),
                  snd (log_login_failure e db username req ''Invalid credentials''))
               else if \<not> is_active user then
                 (Inl (HTTPException 403 ''Inactive user'' []), db)
               else
                 (let db1 = commit (db\<lparr>cur := (cur db)\<lparr>users :=
                               update_first (\<lambda>u. email u = username)
                                 (\<lambda>u. u\<lparr>last_login_at := Some (now e)\<rparr>) (users (cur db))\<rparr>\<rparr>);
                      access = create_access_token e (email user) (role user)
                                 (Some (minutes (ACCESS_TOKEN_EXPIRE_MINUTES e)));
                      refresh_token_string = generate_refresh_token_string e;
                      refresh_token_expires = now e + days (REFRESH_TOKEN_EXPIRE_DAYS e);
                      db2 = commit (add_refresh_token
                               \<lparr>rt_user_id = u_id user, rt_token = refresh_token_string,
                                rt_expires_at = refresh_token_expires, is_revoked = False\<rparr> db1);
                      db3 = snd (log_login_success e db2 (u_id user) (email user) req)
                  in (Inr \<lparr>access_token = access, token_type = ''bearer'',
                           set_cookie = Some (refresh_cookie e refresh_token_string)\<rparr>,
                      db3))))"

text \<open>
  In \<^verbatim>\<open>auth.py\<close> the name \<^verbatim>\<open>datetime\<close> is the class (\<^verbatim>\<open>from datetime import timedelta,
  datetime, timezone\<close>). The class has no attribute \<^verbatim>\<open>timezone\<close>, so the argument of
  \<^verbatim>\<open>datetime.now(datetime.timezone.utc)\<close> raises AttributeError before the clock is read.
\<close>

definition datetime_timezone :: "error + unit" where
  "datetime_timezone = Inl (AttributeError ''timezone'')"

definition datetime_now_datetime_timezone_utc :: "env \<Rightarrow> error + datetime" where
  "datetime_now_datetime_timezone_utc e =
     (case datetime_timezone of Inl exn \<Rightarrow> Inl exn | Inr tz \<Rightarrow> Inr (now e))"

text \<open>\<^verbatim>\<open>GET /auth/verify\<close>.\<close>

definition verify_email :: "env \<Rightarrow> string \<Rightarrow> session \<Rightarrow> (error + user) \<times> session" where
  "verify_email e token db =
     (case find (\<lambda>r. evt_token r = token) (email_verification_tokens (cur db)) of
        None \<Rightarrow> (Inl (HTTPException 404 ''Invalid token'' []), db)
      | Some record \<Rightarrow>
          if consumed record then (Inl (HTTPException 400 ''Token already used'' []), db)
          else
            (case datetime_now_datetime_timezone_utc e of
               Inl exn \<Rightarrow> (Inl exn, db)
             | Inr current \<Rightarrow>
                 if evt_expires_at record < current then
                   (Inl (HTTPException 400 ''Token expired'' []), db)
                 else
                   (case find (\<lambda>u. u_id u = evt_user_id record) (users (cur db)) of
                      None \<Rightarrow> (Inl (HTTPException 404 ''User not found'' []), db)
                    | Some user \<Rightarrow>
                        (let db1 = commit (db\<lparr>cur := (cur db)
                                      \<lparr>users := update_first (\<lambda>u. u_id u = evt_user_id record)
                                                  (\<lambda>u. u\<lparr>is_verified := True\<rparr>) (users (cur db)),
                                       email_verification_tokens :=
                                         update_first (\<lambda>r. evt_token r = token)
                                           (\<lambda>r. r\<lparr>consumed := True\<rparr>)
                                           (email_verification_tokens (cur db))\<rparr>\<rparr>)
                         in (Inr (user\<lparr>is_verified := True\<rparr>), db1)))))"

text \<open>
  \<^verbatim>\<open>POST /auth/refresh\<close>; \<open>refresh_token\<close> is the value of the cookie, if the request
  carries one.
\<close>

definition refresh_access_token ::
  "env \<Rightarrow> request \<Rightarrow> string option \<Rightarrow> session \<Rightarrow> (error + token_response) \<times> session" where
  "refresh_access_token e req refresh_token db =
     (case (case refresh_token of
              None \<Rightarrow> None
            | Some t \<Rightarrow> if t \<noteq> [] then Some t else None) of
        None \<Rightarrow> (Inl (HTTPException 401 ''Refresh token not found'' []), db)
      | Some t \<Rightarrow>
          (case find (\<lambda>r. rt_token r = t) (refresh_tokens (cur db)) of
             None \<Rightarrow> (Inl (HTTPException 401 ''Invalid refresh token'' []), db)
           | Some token_record \<Rightarrow>
               if \<not> is_valid token_record (now e) then
                 (Inl (HTTPException 401 ''Refresh token expired or revoked'' []), db)
               else
                 (case (case find (\<lambda>u. u_id u = rt_user_id token_record) (users (cur db)) of
                          None \<Rightarrow> None
                        | Some u \<Rightarrow> if is_active u then Some u else None) of
                    None \<Rightarrow> (Inl (HTTPException 401 ''User not found or inactive'' []), db)
                  | Some user \<Rightarrow>
                      (let db1 = commit (db\<lparr>cur := (cur db)\<lparr>refresh_tokens :=
                                    update_first (\<lambda>r. rt_token r = t) revoke
                                      (refresh_tokens (cur db))\<rparr>\<rparr>);
                           access = create_access_token e (email user) (role user)
                                      (Some (minutes (ACCESS_TOKEN_EXPIRE_MINUTES e)));
                           new_refresh_token_string = generate_refresh_token_string e;
                           new_refresh_token_expires = now e + days (REFRESH_TOKEN_EXPIRE_DAYS e);
                           db2 = commit (add_refresh_token
                                    \<lparr>rt_user_id = u_id user, rt_token = new_refresh_token_string,
                                     rt_expires_at = new_refresh_token_expires,
                                     is_revoked = False\<rparr> db1);
                           db3 = snd (log_token_refresh e db2 (u_id user) (email user) req)
                       in (Inr \<lparr>access_token = access, token_type = ''bearer'',
                                set_cookie = Some (refresh_cookie e new_refresh_token_string)\<rparr>,
                           db3)))))"

subsection \<open>\<^verbatim>\<open>app/api/audit.py\<close>\<close>

text \<open>
  The admin check of both endpoints is a dependency that runs before them; the
  functions below are the endpoints' bodies. \<^verbatim>\<open>skip\<close> and \<^verbatim>\<open>limit\<close> have passed the
  framework's validation (\<^verbatim>\<open>ge=0\<close>, \<^verbatim>\<open>ge=1\<close>), so they are natural numbers.
\<close>

record audit_log_response =
  r_id :: int
  r_timestamp :: datetime
  r_user_id :: "int option"
  r_user_email :: "string option"
  r_action :: string
  r_target_type :: "string option"
  r_target_id :: "int option"
  r_details :: dict
  r_event_summary :: string

record audit_log_list_response =
  total :: nat
  skip :: nat
  limit :: nat
  logs :: "audit_log_response list"

text \<open>The property \<^verbatim>\<open>AuditLog.event_summary\<close> of \<^verbatim>\<open>app/models/audit_log.py\<close>.\<close>

definition event_summary :: "audit_log \<Rightarrow> string" where
  "event_summary self =
     (let user_info = (case al_user_id self of
                         Some uid \<Rightarrow> if uid \<noteq> 0 then ''User '' @ str_int uid else ''Anonymous''
                       | None \<Rightarrow> ''Anonymous'');
          target_info = (case target_type self of
                           Some tt \<Rightarrow> if tt \<noteq> [] then
                                        '' on '' @ tt @ '':'' @
                                          (case target_id self of
                                             Some i \<Rightarrow> str_int i | None \<Rightarrow> ''None'')
                                      else []
                         | None \<Rightarrow> [])
      in user_info @ '' - '' @ action self @ target_info)"

text \<open>The relationship \<^verbatim>\<open>AuditLog.user\<close>: the account row the actor column refers to.\<close>

definition log_user :: "database \<Rightarrow> audit_log \<Rightarrow> user option" where
  "log_user db row = (case al_user_id row of
                        None \<Rightarrow> None
                      | Some uid \<Rightarrow> find (\<lambda>u. u_id u = uid) (users db))"

definition to_response :: "database \<Rightarrow> audit_log \<Rightarrow> audit_log_response" where
  "to_response db row =
     \<lparr>r_id = al_id row, r_timestamp = timestamp row, r_user_id = al_user_id row,
      r_user_email = (case log_user db row of Some u \<Rightarrow> Some (email u) | None \<Rightarrow> None),
      r_action = action row, r_target_type = target_type row, r_target_id = target_id row,
      r_details = details row, r_event_summary = event_summary row\<rparr>"

text \<open>\<^verbatim>\<open>query.order_by(desc(AuditLog.timestamp))\<close>: the rows by falling timestamp.\<close>

definition order_by_desc_timestamp :: "audit_log list \<Rightarrow> audit_log list" where
  "order_by_desc_timestamp rows = sort_key (\<lambda>l. - timestamp l) rows"

text \<open>The filters of \<^verbatim>\<open>list_audit_logs\<close>, in the order the endpoint applies them.\<close>

definition list_filters ::
  "int option \<Rightarrow> string option \<Rightarrow> string option \<Rightarrow> datetime option \<Rightarrow> datetime option
     \<Rightarrow> audit_log list \<Rightarrow> audit_log list" where
  "list_filters user_id action' target_type' start_date end_date query =
     (let query = (case user_id of
                     Some uid \<Rightarrow> filter (\<lambda>l. al_user_id l = Some uid) query
                   | None \<Rightarrow> query);
          query = (case action' of
                     Some a \<Rightarrow> if a \<noteq> [] then filter (\<lambda>l. action l = a) query else query
                   | None \<Rightarrow> query);
          query = (case target_type' of
                     Some tt \<Rightarrow> if tt \<noteq> [] then filter (\<lambda>l. target_type l = Some tt) query
                                else query
                   | None \<Rightarrow> query);
          query = (case start_date of
                     Some d \<Rightarrow> filter (\<lambda>l. timestamp l \<ge> d) query
                   | None \<Rightarrow> query);
          query = (case end_date of
                     Some d \<Rightarrow> filter (\<lambda>l. timestamp l \<le> d) query
                   | None \<Rightarrow> query)
      in query)"

text \<open>\<^verbatim>\<open>GET /audit-logs/\<close>.\<close>

definition list_audit_logs ::
  "nat \<Rightarrow> nat \<Rightarrow> int option \<Rightarrow> string option \<Rightarrow> string option \<Rightarrow> datetime option
     \<Rightarrow> datetime option \<Rightarrow> database \<Rightarrow> audit_log_list_response" where
  "list_audit_logs skip' limit' user_id action' target_type' start_date end_date db =
     (let query = list_filters user_id action' target_type' start_date end_date (audit_logs db);
          total' = length query;
          query = order_by_desc_timestamp query;
          logs' = take limit' (drop skip' query);
          log_responses = map (to_response db) logs'
      in \<lparr>total = total', skip = skip', limit = limit', logs = log_responses\<rparr>)"

text \<open>\<^verbatim>\<open>GET /audit-logs/stats/summary\<close>.\<close>

record audit_stats =
  total_events :: nat
  auth_events :: nat
  admin_operations :: nat
  failed_logins :: nat
  unique_users :: nat
  date_range :: "datetime option \<times> datetime option"

definition date_filters :: "datetime option \<Rightarrow> datetime option \<Rightarrow> audit_log list \<Rightarrow> audit_log list" where
  "date_filters start_date end_date query =
     (let query = (case start_date of
                     Some d \<Rightarrow> filter (\<lambda>l. timestamp l \<ge> d) query
                   | None \<Rightarrow> query);
          query = (case end_date of
                     Some d \<Rightarrow> filter (\<lambda>l. timestamp l \<le> d) query
                   | None \<Rightarrow> query)
      in query)"

definition get_audit_stats :: "datetime option \<Rightarrow> datetime option \<Rightarrow> database \<Rightarrow> audit_stats" where
  "get_audit_stats start_date end_date db =
     (let query = date_filters start_date end_date (audit_logs db);
          total_events' = length query;
          auth_events' = length (filter (\<lambda>l. startswith (action l) ''auth.'') query);
          admin_operations' = length (filter (\<lambda>l. startswith (action l) ''user.''
                                                \<or> startswith (action l) ''employee.''
                                                \<or> startswith (action l) ''admin.'') query);
          failed_logins' = length (filter (\<lambda>l. action l = ''auth.login.failure'') query);
          unique_users' = length (remdups (filter (\<lambda>u. u \<noteq> None)
                                             (map al_user_id (audit_logs db))))
      in \<lparr>total_events = total_events', auth_events = auth_events',
          admin_operations = admin_operations', failed_logins = failed_logins',
          unique_users = unique_users', date_range = (start_date, end_date)\<rparr>)"

subsection \<open>A concrete deployment for evaluation\<close>

text \<open>
  One environment, request and database on which the endpoints are run. The bcrypt
  check is replaced by a stand-in (the hash of \<open>s\<close> is \<open>$2b$\<close> followed by \<open>s\<close>); the
  clock reads 1000.
\<close>

definition ex_env :: env where
  "ex_env = \<lparr>now = 1000,
             pwd_context = CryptContext_verify (\<lambda>secret hash. Inr (hash = ''$2b$'' @ secret)),
             uuid4 = ''3f2b8c1e'',
             ACCESS_TOKEN_EXPIRE_MINUTES = 15,
             REFRESH_TOKEN_EXPIRE_DAYS = 7\<rparr>"

definition ex_request :: request where
  "ex_request = \<lparr>headers = (\<lambda>h. if h = ''User-Agent'' then Some ''curl'' else None),
                 client = Some ''10.0.0.1'',
                 url_path = ''/api/v1/auth/login''\<rparr>"

definition alice :: user where
  "alice = \<lparr>u_id = 1, email = ''alice@x.com'', hashed_password = ''$2b$Str0ngP@ss1'',
            full_name = ''Alice'', role = EMPLOYEE, is_active = True, is_verified = False,
            last_login_at = None\<rparr>"

definition bob :: user where
  "bob = \<lparr>u_id = 2, email = ''bob@x.com'', hashed_password = ''$2b$hunter2'',
          full_name = ''Bob'', role = MANAGER, is_active = False, is_verified = False,
          last_login_at = None\<rparr>"

definition ex_db :: database where
  "ex_db = \<lparr>users = [alice, bob],
            refresh_tokens =
              [\<lparr>rt_user_id = 1, rt_token = ''live'', rt_expires_at = 2000, is_revoked = False\<rparr>,
               \<lparr>rt_user_id = 1, rt_token = ''revoked'', rt_expires_at = 2000, is_revoked = True\<rparr>,
               \<lparr>rt_user_id = 1, rt_token = ''expired'', rt_expires_at = 500, is_revoked = False\<rparr>,
               \<lparr>rt_user_id = 1, rt_token = ''edge'', rt_expires_at = 1000, is_revoked = False\<rparr>],
            email_verification_tokens =
              [\<lparr>evt_user_id = 1, evt_token = ''v-expired'', evt_expires_at = 5, consumed = False\<rparr>,
               \<lparr>evt_user_id = 1, evt_token = ''v-used'', evt_expires_at = 5000, consumed = True\<rparr>,
               \<lparr>evt_user_id = 1, evt_token = ''v-live'', evt_expires_at = 5000, consumed = False\<rparr>],
            audit_logs = []\<rparr>"

definition ex_session :: session where
  "ex_session = \<lparr>cur = ex_db, committed = []\<rparr>"

subsection \<open>The states a rotation commits\<close>


subsection \<open>Auxiliary notions for the statements\<close>


text \<open>
  The query contract of the audit listing in the specification's words: a row matches
  when it has the given actor, exactly the given action, the given target type, and a
  timestamp in the given range; a filter that is absent (or an empty string) does not
  restrict.
\<close>

definition spec_matches ::
  "int option \<Rightarrow> string option \<Rightarrow> string option \<Rightarrow> datetime option \<Rightarrow> datetime option
     \<Rightarrow> audit_log \<Rightarrow> bool" where
  "spec_matches user_id action' target_type' start_date end_date row =
     ((case user_id of None \<Rightarrow> True | Some uid \<Rightarrow> al_user_id row = Some uid)
      \<and> (case action' of None \<Rightarrow> True | Some a \<Rightarrow> a = [] \<or> action row = a)
      \<and> (case target_type' of None \<Rightarrow> True | Some tt \<Rightarrow> tt = [] \<or> target_type row = Some tt)
      \<and> (case start_date of None \<Rightarrow> True | Some d \<Rightarrow> d \<le> timestamp row)
      \<and> (case end_date of None \<Rightarrow> True | Some d \<Rightarrow> timestamp row \<le> d))"

text \<open>An audit table whose rows are not in the order of their timestamps.\<close>

definition ex_audit_db :: database where
  "ex_audit_db = \<lparr>users = [alice, bob], refresh_tokens = [], email_verification_tokens = [],
     audit_logs =
       [\<lparr>al_id = 1, timestamp = 30, al_user_id = Some 1, action = ''auth.login.success'',
         target_type = None, target_id = None, details = []\<rparr>,
        \<lparr>al_id = 2, timestamp = 10, al_user_id = Some 2, action = ''auth.login.success.extra'',
         target_type = None, target_id = None, details = []\<rparr>,
        \<lparr>al_id = 3, timestamp = 20, al_user_id = None, action = ''auth.login.failure'',
         target_type = None, target_id = None, details = []\<rparr>,
        \<lparr>al_id = 4, timestamp = 40, al_user_id = Some 1, action = ''AUTH.LOGIN.SUCCESS'',
         target_type = None, target_id = None, details = []\<rparr>,
        \<lparr>al_id = 5, timestamp = 25, al_user_id = Some 1, action = ''auth.login.success'',
         target_type = None, target_id = None, details = []\<rparr>]\<rparr>"




section \<open>Properties\<close>

lemmas ex_defs = ex_env_def ex_request_def alice_def bob_def ex_db_def ex_session_def

subsection \<open>Lists and audit entries\<close>






lemma log_login_failure_effect:
  "snd (log_login_failure e db username req reason)
     = commit (db\<lparr>cur := (cur db)\<lparr>audit_logs := audit_logs (cur db) @
         [fst (log_login_failure e db username req reason)]\<rparr>\<rparr>)"
  by (simp add: log_login_failure_def log_auth_event_def log_event_def Let_def)

lemma log_login_failure_entry:
  "action (fst (log_login_failure e db username req reason)) = ''auth.login.failure''
   \<and> al_user_id (fst (log_login_failure e db username req reason)) = None
   \<and> dict_get (details (fst (log_login_failure e db username req reason))) ''email''
       = Some (JStr username)
   \<and> dict_get (details (fst (log_login_failure e db username req reason))) ''success''
       = Some (JBool False)"
  by (simp add: log_login_failure_def log_auth_event_def log_event_def Let_def LOGIN_FAILURE_def
        dict_update_def dict_get_def)

subsection \<open>Refresh-token rotation\<close>




text \<open>
  C2, where it fails: a token that is not in the store and a revoked token get two
  different messages (and a missing cookie a third), all with status 401.
\<close>

theorem C2_counterexample:
  "fst (refresh_access_token ex_env ex_request (Some ''unknown'') ex_session)
     = Inl (HTTPException 401 ''Invalid refresh token'' [])
   \<and> fst (refresh_access_token ex_env ex_request (Some ''revoked'') ex_session)
     = Inl (HTTPException 401 ''Refresh token expired or revoked'' [])
   \<and> fst (refresh_access_token ex_env ex_request None ex_session)
     = Inl (HTTPException 401 ''Refresh token not found'' [])
   \<and> fst (refresh_access_token ex_env ex_request (Some ''unknown'') ex_session)
     \<noteq> fst (refresh_access_token ex_env ex_request (Some ''revoked'') ex_session)"
  by (simp add: refresh_access_token_def ex_defs is_valid_def)

text \<open>
  C2, as the code has it: every rejected refresh token leaves the session unchanged and
  answers 401. An expired and a revoked token get the same answer, \<open>Refresh token
  expired or revoked\<close>; a missing or empty cookie gets \<open>Refresh token not found\<close>, and a
  string that no record carries gets \<open>Invalid refresh token\<close>.
\<close>

theorem C2_refresh_rejections:
  "(refresh_token = None \<or> refresh_token = Some [] \<longrightarrow>
      refresh_access_token e req refresh_token db
        = (Inl (HTTPException 401 ''Refresh token not found'' []), db))
   \<and> (tok \<noteq> [] \<and> find (\<lambda>r. rt_token r = tok) (refresh_tokens (cur db)) = None \<longrightarrow>
      refresh_access_token e req (Some tok) db
        = (Inl (HTTPException 401 ''Invalid refresh token'' []), db))
   \<and> (tok \<noteq> [] \<and> find (\<lambda>r. rt_token r = tok) (refresh_tokens (cur db)) = Some r
        \<and> (is_revoked r \<or> rt_expires_at r < now e) \<longrightarrow>
      refresh_access_token e req (Some tok) db
        = (Inl (HTTPException 401 ''Refresh token expired or revoked'' []), db))"
  by (auto simp: refresh_access_token_def is_valid_def)

theorem C2_refresh_rejections_witness:
  "refresh_access_token ex_env ex_request (Some ''revoked'') ex_session
     = (Inl (HTTPException 401 ''Refresh token expired or revoked'' []), ex_session)
   \<and> refresh_access_token ex_env ex_request (Some ''expired'') ex_session
     = (Inl (HTTPException 401 ''Refresh token expired or revoked'' []), ex_session)
   \<and> refresh_access_token ex_env ex_request (Some ''unknown'') ex_session
     = (Inl (HTTPException 401 ''Invalid refresh token'' []), ex_session)
   \<and> refresh_access_token ex_env ex_request None ex_session
     = (Inl (HTTPException 401 ''Refresh token not found'' []), ex_session)"
  using C2_refresh_rejections [of None ex_env ex_request ex_session "''revoked''"
          "\<lparr>rt_user_id = 1, rt_token = ''revoked'', rt_expires_at = 2000, is_revoked = True\<rparr>"]
        C2_refresh_rejections [of None ex_env ex_request ex_session "''expired''"
          "\<lparr>rt_user_id = 1, rt_token = ''expired'', rt_expires_at = 500, is_revoked = False\<rparr>"]
        C2_refresh_rejections [of None ex_env ex_request ex_session "''unknown''"]
  by (simp add: ex_defs)

text \<open>
  C3, where it fails: a token whose \<open>expires_at\<close> equals the current time is valid, since
  the model method rejects only \<open>expires_at < now\<close>.
\<close>

theorem C3_counterexample:
  "is_valid \<lparr>rt_user_id = 1, rt_token = ''edge'', rt_expires_at = 1000, is_revoked = False\<rparr> 1000
   \<and> \<not> (1000 < rt_expires_at \<lparr>rt_user_id = 1, rt_token = ''edge'', rt_expires_at = 1000, is_revoked = False\<rparr>)"
  by (simp add: is_valid_def)

text \<open>
  C3, as the code has it: \<open>is_valid\<close> holds exactly when the record is not revoked and
  the clock has not passed \<open>expires_at\<close> (\<open>now \<le> expires_at\<close>: at the instant of expiry
  the token still counts as valid); and \<^verbatim>\<open>/auth/refresh\<close> answers a non-empty cookie
  with one of its two token rejections exactly when no record with that string exists
  that is unrevoked with \<open>now \<le> expires_at\<close>.
\<close>

theorem C3_is_valid_iff:
  "(is_valid r t \<longleftrightarrow> \<not> is_revoked r \<and> t \<le> rt_expires_at r)
   \<and> (tok \<noteq> [] \<longrightarrow>
        (fst (refresh_access_token e req (Some tok) db)
           \<in> {Inl (HTTPException 401 ''Invalid refresh token'' []),
              Inl (HTTPException 401 ''Refresh token expired or revoked'' [])}
         \<longleftrightarrow> \<not> (\<exists>r. find (\<lambda>r. rt_token r = tok) (refresh_tokens (cur db)) = Some r
                     \<and> \<not> is_revoked r \<and> now e \<le> rt_expires_at r)))"
proof -
  have a: "is_valid r t \<longleftrightarrow> \<not> is_revoked r \<and> t \<le> rt_expires_at r" for r t
    by (auto simp: is_valid_def)
  show ?thesis
    by (auto simp: a refresh_access_token_def Let_def split: option.splits)
qed

text \<open>The token \<open>edge\<close>, which expires at the very reading of the clock, is accepted.\<close>

theorem C3_is_valid_iff_witness:
  "fst (refresh_access_token ex_env ex_request (Some ''edge'') ex_session)
     \<notin> {Inl (HTTPException 401 ''Invalid refresh token'' []),
        Inl (HTTPException 401 ''Refresh token expired or revoked'' [])}"
  using C3_is_valid_iff [of _ _ "''edge''" ex_env ex_request ex_session]
  by (simp add: ex_defs)

subsection \<open>Credential verifier\<close>

text \<open>
  C4, where it fails: \<open>verify_password\<close> has no handler around the context's verify. With
  the context of the source (bcrypt the only scheme) a string that is not a hash raises
  \<^verbatim>\<open>UnknownHashError\<close> instead of returning false.
\<close>

theorem C4_counterexample:
  "verify_password (CryptContext_verify (\<lambda>secret hash. Inr False)) ''Str0ngP@ss1'' ''not-a-hash''
     = Inl (UnknownHashError ''hash could not be identified'')"
  by (simp add: verify_password_def CryptContext_verify_def bcrypt_identify_def startswith_def)

text \<open>
  C4, as the code has it: \<open>verify_password\<close> returns what the password context's verify
  returns and raises what it raises. With a bcrypt-only context, a hash string that
  bcrypt does not identify raises \<^verbatim>\<open>UnknownHashError\<close>; an identified one gets the
  answer of the bcrypt check.
\<close>

theorem C4_verify_password_propagates:
  "verify_password pwd_context_verify plain hashed = pwd_context_verify plain hashed
   \<and> (\<not> bcrypt_identify hashed \<longrightarrow>
        verify_password (CryptContext_verify bcrypt_verify) plain hashed
          = Inl (UnknownHashError ''hash could not be identified''))
   \<and> (bcrypt_identify hashed \<longrightarrow>
        verify_password (CryptContext_verify bcrypt_verify) plain hashed
          = bcrypt_verify plain hashed)"
  by (simp add: verify_password_def CryptContext_verify_def)

theorem C4_verify_password_propagates_witness:
  "verify_password (CryptContext_verify (\<lambda>secret hash. Inr (hash = ''$2b$'' @ secret))) ''pw'' ''plain:pw''
     = Inl (UnknownHashError ''hash could not be identified'')
   \<and> verify_password (CryptContext_verify (\<lambda>secret hash. Inr (hash = ''$2b$'' @ secret))) ''pw'' ''$2b$pw''
     = Inr True"
  using C4_verify_password_propagates [of "\<lambda>secret hash. Inr False" "''pw''" "''plain:pw''"
          "\<lambda>secret hash. Inr (hash = ''$2b$'' @ secret)"]
        C4_verify_password_propagates [of "\<lambda>secret hash. Inr False" "''pw''" "''$2b$pw''"
          "\<lambda>secret hash. Inr (hash = ''$2b$'' @ secret)"]
  by (simp add: bcrypt_identify_def startswith_def verify_password_def CryptContext_verify_def)

subsection \<open>Login\<close>

text \<open>
  C5, where it fails: the inactive account \<open>bob\<close> with its correct password is a
  credential pair that matches no active account, yet login answers 403 and records no
  audit event.
\<close>

theorem C5_counterexample:
  "find (\<lambda>u. email u = ''bob@x.com'') (users (cur ex_session)) = Some bob
   \<and> \<not> is_active bob
   \<and> fst (login ex_env ex_request ''bob@x.com'' ''hunter2'' ex_session)
       = Inl (HTTPException 403 ''Inactive user'' [])
   \<and> audit_logs (cur (snd (login ex_env ex_request ''bob@x.com'' ''hunter2'' ex_session))) = []"
  by (simp add: login_def ex_defs verify_password_def CryptContext_verify_def bcrypt_identify_def
        startswith_def)

text \<open>
  C5, as the code has it: when no account has the email, or the account's password
  check answers false (whether the account is active or not), login fails with the 401
  \<open>Incorrect email or password\<close>, returns no token, and commits exactly one change: one
  appended audit entry with action \<open>auth.login.failure\<close>, no actor, and the attempted
  email in its details. The refresh-token table and the accounts are unchanged.
\<close>

theorem C5_login_bad_credentials:
  assumes "find (\<lambda>u. email u = username) (users (cur db)) = None
           \<or> (\<exists>account. find (\<lambda>u. email u = username) (users (cur db)) = Some account
                \<and> verify_password (pwd_context e) password (hashed_password account) = Inr False)"
  shows "\<exists>entry. login e req username password db
           = (Inl (HTTPException 401 ''Incorrect email or password''
                     [(''WWW-Authenticate'', ''Bearer'')]),
              commit (db\<lparr>cur := (cur db)\<lparr>audit_logs := audit_logs (cur db) @ [entry]\<rparr>\<rparr>))
         \<and> action entry = ''auth.login.failure''
         \<and> al_user_id entry = None
         \<and> dict_get (details entry) ''email'' = Some (JStr username)"
proof -
  let ?entry = "fst (log_login_failure e db username req ''Invalid credentials'')"
  have "login e req username password db
           = (Inl (HTTPException 401 ''Incorrect email or password''
                     [(''WWW-Authenticate'', ''Bearer'')]),
              snd (log_login_failure e db username req ''Invalid credentials''))"
    using assms by (auto simp: login_def)
  then show ?thesis
    using log_login_failure_entry [of e db username req "''Invalid credentials''"]
    by (intro exI [of _ ?entry]) (simp add: log_login_failure_effect)
qed

theorem C5_login_bad_credentials_witness:
  "\<exists>entry. login ex_env ex_request ''alice@x.com'' ''wrong'' ex_session
           = (Inl (HTTPException 401 ''Incorrect email or password''
                     [(''WWW-Authenticate'', ''Bearer'')]),
              commit (ex_session\<lparr>cur := (cur ex_session)\<lparr>audit_logs :=
                 audit_logs (cur ex_session) @ [entry]\<rparr>\<rparr>))
         \<and> action entry = ''auth.login.failure''
         \<and> al_user_id entry = None
         \<and> dict_get (details entry) ''email'' = Some (JStr ''alice@x.com'')"
  by (rule C5_login_bad_credentials)
     (simp add: ex_defs verify_password_def CryptContext_verify_def bcrypt_identify_def
        startswith_def)

text \<open>
  C6: \<^verbatim>\<open>GET /auth/verify\<close> on a token that exists and is not consumed raises
  AttributeError (the expiry test reads \<^verbatim>\<open>datetime.timezone\<close> off the datetime class),
  whether the token is expired (\<open>v-expired\<close>) or not (\<open>v-live\<close>): neither the \<open>expired\<close>
  answer nor a successful verification is ever produced. The two earlier checks answer
  as specified: 400 \<open>already used\<close> for a consumed token, 404 for an unknown one.
\<close>

theorem C6_verify_email_raises:
  "verify_email ex_env ''v-expired'' ex_session = (Inl (AttributeError ''timezone''), ex_session)
   \<and> verify_email ex_env ''v-live'' ex_session = (Inl (AttributeError ''timezone''), ex_session)
   \<and> verify_email ex_env ''v-used'' ex_session
       = (Inl (HTTPException 400 ''Token already used'' []), ex_session)
   \<and> verify_email ex_env ''v-none'' ex_session
       = (Inl (HTTPException 404 ''Invalid token'' []), ex_session)"
  by (simp add: verify_email_def ex_defs datetime_now_datetime_timezone_utc_def
      datetime_timezone_def)

text \<open>
  C10: a login with the correct password of an inactive account answers 403
  \<open>Inactive user\<close> and returns the session as it was: nothing is committed, so there is
  no audit entry, no change of \<open>last_login_at\<close> and no refresh token, and the answer
  carries no access token.
\<close>

theorem C10_login_inactive_account:
  assumes "find (\<lambda>u. email u = username) (users (cur db)) = Some account"
    and "verify_password (pwd_context e) password (hashed_password account) = Inr True"
    and "\<not> is_active account"
  shows "login e req username password db = (Inl (HTTPException 403 ''Inactive user'' []), db)"
  using assms by (simp add: login_def)

theorem C10_login_inactive_account_witness:
  "login ex_env ex_request ''bob@x.com'' ''hunter2'' ex_session
     = (Inl (HTTPException 403 ''Inactive user'' []), ex_session)"
  by (rule C10_login_inactive_account [where account = bob])
     (simp_all add: ex_defs verify_password_def CryptContext_verify_def bcrypt_identify_def
        startswith_def)

subsection \<open>Rate limiter\<close>










lemma length_serve: "length (fst (serve hits s)) = length hits"
  by (induction hits arbitrary: s) (auto simp: split_def Let_def)





text \<open>
  The threshold must be positive for the last part: with threshold 0 each request
  is denied, the first of a window included.
\<close>

lemma limiter_zero_threshold:
  "fst (make_rate_limiter 0 60 0 ex_request Map.empty)
     = Inl (HTTPException 429 ''Rate limit exceeded. Try again in 60s'' [])"
  by (simp add: make_rate_limiter_def Let_def py_int_def) code_simp

subsection \<open>Audit API\<close>

lemma option_filter:
  "(case x of Some v \<Rightarrow> filter (P v) rows | None \<Rightarrow> rows)
     = filter (\<lambda>l. case x of None \<Rightarrow> True | Some v \<Rightarrow> P v l) rows"
  by (cases x) simp_all

lemma option_filter_nonempty:
  "(case x of Some v \<Rightarrow> if v \<noteq> [] then filter (P v) rows else rows | None \<Rightarrow> rows)
     = filter (\<lambda>l. case x of None \<Rightarrow> True | Some v \<Rightarrow> v = [] \<or> P v l) rows"
  by (cases x) simp_all

lemma list_filters_filter:
  "list_filters uid act tt sd ed rows = filter (spec_matches uid act tt sd ed) rows"
proof -
  have "list_filters uid act tt sd ed rows
          = filter (\<lambda>l. case ed of None \<Rightarrow> True | Some d \<Rightarrow> timestamp l \<le> d)
             (filter (\<lambda>l. case sd of None \<Rightarrow> True | Some d \<Rightarrow> d \<le> timestamp l)
               (filter (\<lambda>l. case tt of None \<Rightarrow> True | Some v \<Rightarrow> v = [] \<or> target_type l = Some v)
                 (filter (\<lambda>l. case act of None \<Rightarrow> True | Some v \<Rightarrow> v = [] \<or> action l = v)
                   (filter (\<lambda>l. case uid of None \<Rightarrow> True | Some v \<Rightarrow> al_user_id l = Some v)
                      rows))))"
    unfolding list_filters_def Let_def
    by (simp only: option_filter option_filter_nonempty)
  also have "\<dots> = filter (spec_matches uid act tt sd ed) rows"
    unfolding filter_filter spec_matches_def
    by (rule filter_cong [OF refl]) blast
  finally show ?thesis .
qed

lemma order_by_desc_sorted:
  "sorted_wrt (\<lambda>a b. b \<le> a) (map timestamp (order_by_desc_timestamp rows))"
proof -
  have "sorted (map (\<lambda>l. - timestamp l) (order_by_desc_timestamp rows))"
    unfolding order_by_desc_timestamp_def by (rule sorted_sort_key)
  then show ?thesis
    by (simp add: sorted_wrt_map)
qed

lemma set_order_by_desc: "set (order_by_desc_timestamp rows) = set rows"
  by (simp add: order_by_desc_timestamp_def)

lemma map_timestamp_response: "map r_timestamp (map (to_response db) rows) = map timestamp rows"
  by (simp add: to_response_def)

text \<open>
  C8: whatever the order of the rows in the table, the timestamps of the entries
  that \<^verbatim>\<open>GET /audit-logs/\<close> returns fall from newest to oldest; with a non-empty action
  filter every returned entry has exactly that action string; \<open>total\<close> is the number
  of all rows matching the filters, the same for every \<open>skip\<close> and \<open>limit\<close>; and the
  entries returned are the page \<open>skip\<close>, \<open>limit\<close> of the whole ordered result.
\<close>

theorem C8_list_audit_logs:
  "sorted_wrt (\<lambda>a b. b \<le> a)
     (map r_timestamp (logs (list_audit_logs skip' limit' uid act tt sd ed db)))
   \<and> (\<forall>r \<in> set (logs (list_audit_logs skip' limit' uid act tt sd ed db)).
         act = Some a \<and> a \<noteq> [] \<longrightarrow> r_action r = a)
   \<and> total (list_audit_logs skip' limit' uid act tt sd ed db)
       = length (filter (spec_matches uid act tt sd ed) (audit_logs db))
   \<and> total (list_audit_logs skip' limit' uid act tt sd ed db)
       = total (list_audit_logs skip2 limit2 uid act tt sd ed db)
   \<and> logs (list_audit_logs skip' limit' uid act tt sd ed db)
       = take limit' (drop skip' (logs (list_audit_logs 0 (length (audit_logs db)) uid act tt sd ed db)))"
proof -
  let ?m = "filter (spec_matches uid act tt sd ed) (audit_logs db)"
  let ?page = "take limit' (drop skip' (order_by_desc_timestamp ?m))"
  have page: "logs (list_audit_logs skip' limit' uid act tt sd ed db) = map (to_response db) ?page"
    by (simp add: list_audit_logs_def Let_def list_filters_filter)
  have "sorted_wrt (\<lambda>a b. b \<le> a) (map timestamp (drop skip' (order_by_desc_timestamp ?m)))"
    using order_by_desc_sorted [of ?m] by (simp add: sorted_wrt_drop flip: drop_map)
  then have "sorted_wrt (\<lambda>a b. b \<le> a) (map timestamp ?page)"
    by (simp add: sorted_wrt_take flip: take_map)
  then have s: "sorted_wrt (\<lambda>a b. b \<le> a)
     (map r_timestamp (logs (list_audit_logs skip' limit' uid act tt sd ed db)))"
    by (simp only: page map_timestamp_response)
  have sub: "set ?page \<subseteq> set ?m"
    using set_take_subset set_drop_subset set_order_by_desc by fast
  have ex: "\<forall>r \<in> set (logs (list_audit_logs skip' limit' uid act tt sd ed db)).
         act = Some a \<and> a \<noteq> [] \<longrightarrow> r_action r = a"
  proof (intro ballI impI)
    fix r assume r: "r \<in> set (logs (list_audit_logs skip' limit' uid act tt sd ed db))"
      and a: "act = Some a \<and> a \<noteq> []"
    from r page obtain row where row: "row \<in> set ?page" "r = to_response db row" by auto
    with sub have "spec_matches uid act tt sd ed row" by auto
    with a have "action row = a" by (simp add: spec_matches_def)
    with row show "r_action r = a" by (simp add: to_response_def)
  qed
  have t: "total (list_audit_logs k l uid act tt sd ed db) = length ?m" for k l
    by (simp add: list_audit_logs_def Let_def list_filters_filter)
  have full: "take (length (audit_logs db)) (order_by_desc_timestamp ?m) = order_by_desc_timestamp ?m"
    by (simp add: order_by_desc_timestamp_def)
  have pg: "logs (list_audit_logs skip' limit' uid act tt sd ed db)
       = take limit' (drop skip' (logs (list_audit_logs 0 (length (audit_logs db)) uid act tt sd ed db)))"
    by (simp add: list_audit_logs_def Let_def list_filters_filter full take_map drop_map)
  show ?thesis
    using s ex t pg by simp
qed

theorem C8_list_audit_logs_witness:
  "map (\<lambda>r. (r_timestamp r, r_action r))
       (logs (list_audit_logs 0 50 None (Some ''auth.login.success'') None None None ex_audit_db))
     = [(30, ''auth.login.success''), (25, ''auth.login.success'')]
   \<and> total (list_audit_logs 1 1 None (Some ''auth.login.success'') None None None ex_audit_db) = 2
   \<and> map r_timestamp (logs (list_audit_logs 0 50 None None None None None ex_audit_db))
     = [40, 30, 25, 20, 10]"
  using C8_list_audit_logs [of 0 50 None "Some ''auth.login.success''" None None None ex_audit_db
          "''auth.login.success''" 1 1]
  by (simp add: list_audit_logs_def list_filters_def order_by_desc_timestamp_def ex_audit_db_def
        to_response_def Let_def)

lemma date_filters_filter:
  "date_filters sd ed rows
     = filter (\<lambda>l. (case sd of None \<Rightarrow> True | Some d \<Rightarrow> d \<le> timestamp l)
                  \<and> (case ed of None \<Rightarrow> True | Some d \<Rightarrow> timestamp l \<le> d)) rows"
  by (cases sd; cases ed) (simp_all add: date_filters_def)

text \<open>
  C9: in the statistics, \<open>unique_users\<close> is the number of distinct non-null actors of
  the whole audit table, the same for every date range, while \<open>total_events\<close>,
  \<open>auth_events\<close>, \<open>admin_operations\<close> and \<open>failed_logins\<close> count rows of the requested
  range only. On the example table with the range 15 to 28, two events are counted, one
  user appears in them, and \<open>unique_users\<close> is 2.
\<close>

theorem C9_unique_users_ignores_dates:
  "unique_users (get_audit_stats sd ed db)
     = card {u. Some u \<in> al_user_id ` set (audit_logs db)}
   \<and> unique_users (get_audit_stats sd ed db) = unique_users (get_audit_stats None None db)
   \<and> total_events (get_audit_stats sd ed db) = length (date_filters sd ed (audit_logs db))
   \<and> auth_events (get_audit_stats sd ed db)
       = length (filter (\<lambda>l. startswith (action l) ''auth.'') (date_filters sd ed (audit_logs db)))
   \<and> admin_operations (get_audit_stats sd ed db)
       = length (filter (\<lambda>l. startswith (action l) ''user.'' \<or> startswith (action l) ''employee.''
                            \<or> startswith (action l) ''admin.'') (date_filters sd ed (audit_logs db)))
   \<and> failed_logins (get_audit_stats sd ed db)
       = length (filter (\<lambda>l. action l = ''auth.login.failure'') (date_filters sd ed (audit_logs db)))
   \<and> set (date_filters sd ed (audit_logs db))
       = {l \<in> set (audit_logs db). (case sd of None \<Rightarrow> True | Some d \<Rightarrow> d \<le> timestamp l)
                                   \<and> (case ed of None \<Rightarrow> True | Some d \<Rightarrow> timestamp l \<le> d)}
   \<and> unique_users (get_audit_stats (Some 15) (Some 28) ex_audit_db) = 2
   \<and> total_events (get_audit_stats (Some 15) (Some 28) ex_audit_db) = 2
   \<and> card {u. Some u \<in> al_user_id ` set (date_filters (Some 15) (Some 28) (audit_logs ex_audit_db))} = 1"
proof -
  let ?ids = "filter (\<lambda>u. u \<noteq> None) (map al_user_id (audit_logs db))"
  have uu: "unique_users (get_audit_stats s e db) = length (remdups ?ids)" for s e
    by (simp add: get_audit_stats_def Let_def)
  have "length (remdups ?ids) = card (set ?ids)"
    by (simp add: length_remdups_card_conv)
  also have "set ?ids = Some ` {u. Some u \<in> al_user_id ` set (audit_logs db)}"
    by (auto simp: image_iff) metis
  also have "card \<dots> = card {u. Some u \<in> al_user_id ` set (audit_logs db)}"
    by (rule card_image) simp
  finally have c: "length (remdups ?ids) = card {u. Some u \<in> al_user_id ` set (audit_logs db)}" .
  have ex1: "unique_users (get_audit_stats (Some 15) (Some 28) ex_audit_db) = 2"
    by (simp add: get_audit_stats_def Let_def ex_audit_db_def)
  have ex2: "total_events (get_audit_stats (Some 15) (Some 28) ex_audit_db) = 2"
    by (simp add: get_audit_stats_def Let_def ex_audit_db_def date_filters_def)
  have "{u. Some u \<in> al_user_id ` set (date_filters (Some 15) (Some 28) (audit_logs ex_audit_db))} = {1}"
    by (auto simp: date_filters_def ex_audit_db_def)
  then have ex3: "card {u. Some u \<in> al_user_id ` set (date_filters (Some 15) (Some 28) (audit_logs ex_audit_db))} = 1"
    by simp
  show ?thesis
    using uu c ex1 ex2 ex3
    by (simp add: get_audit_stats_def Let_def date_filters_filter)
qed

theorem C9_unique_users_ignores_dates_witness:
  "unique_users (get_audit_stats (Some 100) (Some 200) ex_audit_db) = 2
   \<and> total_events (get_audit_stats (Some 100) (Some 200) ex_audit_db) = 0"
  using C9_unique_users_ignores_dates [of "Some 100" "Some 200" ex_audit_db]
  by (simp add: get_audit_stats_def Let_def ex_audit_db_def date_filters_def)

end
